theory Spec2Isabelle
  imports Complex_Main
begin

section \<open>Shared types and numeric helpers\<close>

text \<open>
  Modelled from the spec: the enum \<open>TreeMode\<close> of \<open>../types\<close>, which every component
  imports but which is not among the sources. The spec names three display modes: the scattered
  ("chaos") layout, the assembled ("formed") layout and the "pinch" focus mode; the sources
  refer to \<open>TreeMode.FORMED\<close> and \<open>TreeMode.PINCH\<close>.
\<close>

datatype TreeMode = CHAOS | FORMED | PINCH

text \<open>
  JavaScript and GLSL numbers are floating point. The model computes with exact real numbers
  (and, for the easing curve, with any ordered field, the rationals among them): the rounding
  of double-precision arithmetic is not modelled. The rounding of a number stored into a
  \<open>Float32Array\<close> is modelled, by \<open>fround\<close> below.
  \<open>Math.random()\<close> is an input: a function from the number of the call to the value
  returned, or a single value where the code makes at most one call.
\<close>

type_synonym vec3 = "real \<times> real \<times> real"

text \<open>\<open>THREE.MathUtils.lerp(x, y, t)\<close> is \<open>(1 - t) * x + t * y\<close>.\<close>

definition lerp :: "real \<Rightarrow> real \<Rightarrow> real \<Rightarrow> real" where
  "lerp x y t = (1 - t) * x + t * y"

text \<open>GLSL \<open>clamp(x, lo, hi)\<close> is \<open>min(max(x, lo), hi)\<close>.\<close>

definition clamp :: "real \<Rightarrow> real \<Rightarrow> real \<Rightarrow> real" where
  "clamp x lo hi = min (max x lo) hi"

text \<open>\<open>Math.hypot(a, b)\<close>.\<close>

definition hypot :: "real \<Rightarrow> real \<Rightarrow> real" where
  "hypot a b = sqrt (a\<^sup>2 + b\<^sup>2)"



text \<open>What the components write with \<open>console.warn\<close> and \<open>console.error\<close>: the message
  and the error object passed with it.\<close>

datatype log_entry = ConsoleWarn string string | ConsoleError string string

section \<open>TreeTrunk (src/unnamed/part_000)\<close>

subsection \<open>The vertex shader's easing\<close>

text \<open>
  \<^verbatim>\<open>
  float cubicInOut(float t) {
    return t < 0.5
      ? 4.0 * t * t * t
      : 1.0 - pow(-2.0 * t + 2.0, 3.0) / 2.0;
  }
  \<close>
  \<open>pow(x, 3.0)\<close> is the cube; GLSL defines it for \<open>x \<ge> 0\<close>, which holds for \<open>t \<le> 1\<close>.
\<close>

definition cubicInOut :: "'a::linordered_field \<Rightarrow> 'a" where
  "cubicInOut t = (if t < 1 / 2 then 4 * t * t * t else 1 - (- 2 * t + 2) ^ 3 / 2)"

text \<open>
  \<^verbatim>\<open>float localProgress = clamp(uProgress * 1.2 - aRandom * 0.2, 0.0, 1.0);
  float easedProgress = cubicInOut(localProgress);\<close>
\<close>

definition localProgress :: "real \<Rightarrow> real \<Rightarrow> real" where
  "localProgress uProgress aRandom = clamp (uProgress * 1.2 - aRandom * 0.2) 0 1"

definition easedProgress :: "real \<Rightarrow> real \<Rightarrow> real" where
  "easedProgress uProgress aRandom = cubicInOut (localProgress uProgress aRandom)"

subsection \<open>The frame callback\<close>

text \<open>
  \<open>progressRef\<close> starts at 0 (\<open>useRef(0)\<close>), as do both uniforms. The callback does
  nothing while \<open>meshRef.current\<close> is null (the first argument); otherwise
  \<^verbatim>\<open>
  material.uniforms.uTime.value = state.clock.elapsedTime;
  const target = mode === TreeMode.FORMED ? 1 : 0;
  progressRef.current = THREE.MathUtils.lerp(progressRef.current, target, delta * 3.5);
  material.uniforms.uProgress.value = progressRef.current;
  \<close>
\<close>

record trunk_frame_state =
  progressRef :: real
  uTime :: real
  uProgress :: real

definition trunk_initial :: trunk_frame_state where
  "trunk_initial = \<lparr>progressRef = 0, uTime = 0, uProgress = 0\<rparr>"

definition useFrame_trunk ::
  "bool \<Rightarrow> TreeMode \<Rightarrow> real \<Rightarrow> real \<Rightarrow> trunk_frame_state \<Rightarrow> trunk_frame_state" where
  "useFrame_trunk mesh mode elapsedTime delta s =
     (if mesh then
        let target = (if mode = FORMED then 1 else 0);
            p = lerp (progressRef s) target (delta * 3.5)
        in s\<lparr>uTime := elapsedTime, progressRef := p, uProgress := p\<rparr>
      else s)"

text \<open>A run of frames with the mesh mounted: each frame has the mode prop of its render, the
  clock's elapsed time and the frame delta.\<close>

record trunk_tick =
  tick_mode :: TreeMode
  tick_elapsedTime :: real
  tick_delta :: real

definition trunk_frames :: "trunk_tick list \<Rightarrow> trunk_frame_state \<Rightarrow> trunk_frame_state" where
  "trunk_frames ticks s =
     fold (\<lambda>k. useFrame_trunk True (tick_mode k) (tick_elapsedTime k) (tick_delta k)) ticks s"

subsection \<open>The per-particle attributes\<close>







section \<open>Experience (src/unnamed/part_001)\<close>

text \<open>
  \<open>OrbitControls\<close> is library code. Its camera position (\<open>controls.object.position\<close>)
  and target are fields of the record; what \<open>getAzimuthalAngle()\<close>,
  \<open>getPolarAngle()\<close> and \<open>getDistance()\<close> return is read from three more fields, and
  \<open>controls.update()\<close> is a parameter of the frame callback. \<open>prevHandPos\<close> starts at
  (0.5, 0.5).
\<close>

record handPosition =
  hand_x :: real
  hand_y :: real
  detected :: bool

record controls =
  object_position :: vec3
  controls_target :: vec3
  azimuthalAngle :: real
  polarAngle :: real
  controls_distance :: real

record experience_refs =
  controlsRef :: "controls option"
  prevHandPos :: "real \<times> real"

definition MOVEMENT_THRESHOLD :: real where
  "MOVEMENT_THRESHOLD = 0.005"

definition useFrame_experience ::
  "(controls \<Rightarrow> controls) \<Rightarrow> handPosition \<Rightarrow> real \<Rightarrow> experience_refs \<Rightarrow> experience_refs" where
  "useFrame_experience update h delta s =
     (case controlsRef s of
        None \<Rightarrow> s
      | Some controls \<Rightarrow>
          if detected h then
            let movement = hypot (hand_x h - fst (prevHandPos s)) (hand_y h - snd (prevHandPos s))
            in if movement > MOVEMENT_THRESHOLD then
                 let targetAzimuth = (hand_x h - 0.5) * pi * 2;
                     adjustedY = (hand_y h - 0.2) * 1.5;
                     clampedY = max 0 (min 1 adjustedY);
                     minPolar = pi / 4;
                     maxPolar = pi / 1.8;
                     targetPolar = minPolar + clampedY * (maxPolar - minPolar);
                     currentAzimuth = azimuthalAngle controls;
                     currentPolar = polarAngle controls;
                     azimuthDiff0 = targetAzimuth - currentAzimuth;
                     azimuthDiff1 = (if azimuthDiff0 > pi then azimuthDiff0 - pi * 2 else azimuthDiff0);
                     azimuthDiff = (if azimuthDiff1 < - pi then azimuthDiff1 + pi * 2 else azimuthDiff1);
                     lerpSpeed = 10;
                     newAzimuth = currentAzimuth + azimuthDiff * delta * lerpSpeed;
                     newPolar = currentPolar + (targetPolar - currentPolar) * delta * lerpSpeed;
                     radius = controls_distance controls;
                     normalizedHandY = max 0 (min 1 (hand_y h));
                     targetY = 7 - normalizedHandY * 4;
                     x = radius * sin newPolar * sin newAzimuth;
                     y = targetY + radius * cos newPolar;
                     z = radius * sin newPolar * cos newAzimuth;
                     controls' = update (controls\<lparr>object_position := (x, y, z),
                                   controls_target := (0, targetY, 0)\<rparr>)
                 in s\<lparr>controlsRef := Some controls', prevHandPos := (hand_x h, hand_y h)\<rparr>
               else s
          else s)"

section \<open>UIOverlay (src/components/UIOverlay.tsx and src/unnamed/part_002)\<close>

text \<open>
  \<open>handleFileChange\<close> is the same in both files. A selected file has its MIME type and what
  its \<open>FileReader\<close> does with it: it fires \<open>onload\<close> with \<open>event.target.result\<close> (a
  string or null), or it never fires \<open>onload\<close> (the read fails or is aborted; the handler
  sets no \<open>onerror\<close>). The promise of a file is resolved only inside
  \<^verbatim>\<open>if (event.target?.result) { resolve(event.target.result as string); }\<close>
  so a null or empty result leaves it pending, and nothing rejects it. The handler's result
  is the list of the calls it makes to \<open>onPhotosUpload\<close>, each with its argument.
\<close>

datatype reader_event = Load "string option" | NoLoad

record File =
  file_type :: string
  file_read :: reader_event

datatype 'a promise = Resolved 'a | Pending

definition startsWith :: "string \<Rightarrow> string \<Rightarrow> bool" where
  "startsWith s p = (take (length p) s = p)"

definition reader_promise :: "File \<Rightarrow> string promise" where
  "reader_promise f =
     (case file_read f of
        Load (Some result) \<Rightarrow> if result \<noteq> [] then Resolved result else Pending
      | Load None \<Rightarrow> Pending
      | NoLoad \<Rightarrow> Pending)"

text \<open>The loop over \<open>files\<close>: a file that is not an image is skipped (\<open>continue\<close>), the
  promise of any other is pushed onto \<open>readers\<close>.\<close>

fun collect_readers :: "File list \<Rightarrow> string promise list \<Rightarrow> string promise list" where
  "collect_readers [] readers = readers"
| "collect_readers (f # fs) readers =
     (if \<not> startsWith (file_type f) ''image/'' then collect_readers fs readers
      else collect_readers fs (readers @ [reader_promise f]))"

text \<open>\<open>Promise.all\<close> of promises that never reject: resolved with the values in order once
  every promise is resolved, pending otherwise.\<close>

fun Promise_all :: "'a promise list \<Rightarrow> 'a list promise" where
  "Promise_all [] = Resolved []"
| "Promise_all (p # ps) =
     (case p of
        Pending \<Rightarrow> Pending
      | Resolved v \<Rightarrow> (case Promise_all ps of Pending \<Rightarrow> Pending | Resolved vs \<Rightarrow> Resolved (v # vs)))"

definition handleFileChange :: "File list option \<Rightarrow> string list list" where
  "handleFileChange files =
     (case files of
        None \<Rightarrow> []
      | Some fs \<Rightarrow>
          if length fs = 0 then []
          else (case Promise_all (collect_readers fs []) of
                  Resolved urls \<Rightarrow> [urls]
                | Pending \<Rightarrow> []))"

text \<open>The words of the property: an image file, a file whose read delivers a non-empty
  result, and the data URL it delivers.\<close>

definition is_image :: "File \<Rightarrow> bool" where
  "is_image f = startsWith (file_type f) ''image/''"

definition read_delivers :: "File \<Rightarrow> bool" where
  "read_delivers f = (case file_read f of Load (Some result) \<Rightarrow> result \<noteq> [] | _ \<Rightarrow> False)"

definition data_url :: "File \<Rightarrow> string" where
  "data_url f = (case file_read f of Load (Some result) \<Rightarrow> result | _ \<Rightarrow> [])"

section \<open>Polaroids (src/components/Polaroids.tsx)\<close>

text \<open>\<open>PHOTO_COUNT\<close> is declared and never read.\<close>

definition PHOTO_COUNT :: nat where
  "PHOTO_COUNT = 22"

datatype photoDisplayMode = Random | Sequential

record PhotoData =
  photo_id :: nat
  url :: string
  chaosPos :: vec3
  targetPos :: vec3
  pinchPos :: vec3
  speed :: real
  isSelected :: bool
  label :: string

subsection \<open>PolaroidItem: texture loading and what is rendered\<close>

text \<open>
  The item's state is \<open>texture\<close> (null at first) and \<open>error\<close> (false at first). The effect
  on \<open>data.url\<close> starts a load, which ends in one of the loader's two callbacks:
  \<^verbatim>\<open>
  (loadedTex) => { loadedTex.colorSpace = THREE.SRGBColorSpace; setTexture(loadedTex); setError(false); },
  undefined,
  (err) => { console.warn(`Failed to load image: ...url`, err); setError(true); }
  \<close>
  The state is paired with the console's log.
\<close>

datatype colorSpace = NoColorSpace | SRGBColorSpace

record Texture =
  image :: string
  colorSpace :: colorSpace

datatype load_outcome = TextureLoaded Texture | TextureFailed string

record item_state =
  texture :: "Texture option"
  error :: bool

definition useEffect_texture ::
  "string \<Rightarrow> load_outcome \<Rightarrow> item_state \<times> log_entry list \<Rightarrow> item_state \<times> log_entry list" where
  "useEffect_texture photo_url outcome sl =
     (case outcome of
        TextureLoaded loadedTex \<Rightarrow>
          ((fst sl)\<lparr>texture := Some (loadedTex\<lparr>colorSpace := SRGBColorSpace\<rparr>), error := False\<rparr>,
           snd sl)
      | TextureFailed err \<Rightarrow>
          ((fst sl)\<lparr>error := True\<rparr>,
           snd sl @ [ConsoleWarn (''Failed to load image: '' @ photo_url) err]))"

text \<open>
  The photo area: \<^verbatim>\<open>texture && !error ? <meshBasicMaterial map={texture} />
  : <meshStandardMaterial color={error ? "#550000" : "#cccccc"} />\<close>, and the text label:
  \<^verbatim>\<open>error ? "Image not found" : photoLabel\<close>.
\<close>

datatype material = MeshBasicMaterial Texture | MeshStandardMaterial string

definition photo_material :: "item_state \<Rightarrow> material" where
  "photo_material s =
     (case texture s of
        Some t \<Rightarrow>
          if \<not> error s then MeshBasicMaterial t
          else MeshStandardMaterial (if error s then ''#550000'' else ''#cccccc'')
      | None \<Rightarrow> MeshStandardMaterial (if error s then ''#550000'' else ''#cccccc''))"

definition label_text :: "item_state \<Rightarrow> string \<Rightarrow> string" where
  "label_text s photoLabel = (if error s then ''Image not found'' else photoLabel)"

subsection \<open>PolaroidItem: the position target of a frame\<close>

text \<open>Of the frame callback, the choice of \<open>targetPos\<close> and the position's
  \<open>lerp(targetPos, step)\<close> (\<open>Vector3.lerp\<close> adds \<open>(v - this) * alpha\<close> to each
  coordinate); rotation, floating and scale are not modelled.\<close>

definition item_targetPos :: "TreeMode \<Rightarrow> PhotoData \<Rightarrow> vec3" where
  "item_targetPos mode data =
     (let isFormed = (mode = FORMED); isPinch = (mode = PINCH)
      in if isPinch \<and> isSelected data then pinchPos data
         else if isFormed then targetPos data
         else chaosPos data)"

definition vec3_lerp :: "vec3 \<Rightarrow> vec3 \<Rightarrow> real \<Rightarrow> vec3" where
  "vec3_lerp p v alpha =
     (case p of (px, py, pz) \<Rightarrow> case v of (vx, vy, vz) \<Rightarrow>
        (px + (vx - px) * alpha, py + (vy - py) * alpha, pz + (vz - pz) * alpha))"

definition item_position_step :: "TreeMode \<Rightarrow> PhotoData \<Rightarrow> real \<Rightarrow> vec3 \<Rightarrow> vec3" where
  "item_position_step mode data delta position =
     (let step = delta * speed data * 2.0
      in vec3_lerp position (item_targetPos mode data) step)"

subsection \<open>Polaroids: the selection state and its effect\<close>

text \<open>
  The component's props and its two pieces of state, \<open>selectedPhotoIndex\<close> (null at first)
  and \<open>sequentialIndex\<close> (0 at first). The effect:
  \<^verbatim>\<open>
  if (mode === TreeMode.PINCH && uploadedPhotos.length > 0) {
    if (selectedPhotoIndex === null) {
      let newIndex;
      if (photoDisplayMode === 'random') {
        newIndex = Math.floor(Math.random() * uploadedPhotos.length);
      } else {
        newIndex = sequentialIndex;
        setSequentialIndex((prev) => (prev + 1) % uploadedPhotos.length);
      }
      setSelectedPhotoIndex(newIndex);
    }
  } else {
    setSelectedPhotoIndex(null);
  }
  \<close>
  Its first argument here is the value \<open>Math.random()\<close> returns if the effect calls it.
  The effect's dependencies include the state it sets, so it runs again after it changed
  the state; that second run changes nothing (lemma \<open>useEffect_select_settled\<close>), and a
  history of renders is modelled with one run of the effect for each render's props.
\<close>

record polaroids_props =
  mode :: TreeMode
  uploadedPhotos :: "string list"
  displayMode :: photoDisplayMode
  photoLabels :: "string list option"

record polaroids_state =
  selectedPhotoIndex :: "nat option"
  sequentialIndex :: nat

definition polaroids_initial :: polaroids_state where
  "polaroids_initial = \<lparr>selectedPhotoIndex = None, sequentialIndex = 0\<rparr>"

definition useEffect_select :: "real \<Rightarrow> polaroids_props \<Rightarrow> polaroids_state \<Rightarrow> polaroids_state" where
  "useEffect_select math_random p s =
     (if mode p = PINCH \<and> length (uploadedPhotos p) > 0 then
        (if selectedPhotoIndex s = None then
           (if displayMode p = Random then
              s\<lparr>selectedPhotoIndex :=
                  Some (nat \<lfloor>math_random * real (length (uploadedPhotos p))\<rfloor>)\<rparr>
            else
              s\<lparr>sequentialIndex := (sequentialIndex s + 1) mod length (uploadedPhotos p),
                selectedPhotoIndex := Some (sequentialIndex s)\<rparr>)
         else s)
      else s\<lparr>selectedPhotoIndex := None\<rparr>)"

definition polaroids_renders ::
  "(real \<times> polaroids_props) list \<Rightarrow> polaroids_state \<Rightarrow> polaroids_state" where
  "polaroids_renders history s = fold (\<lambda>(r, p). useEffect_select r p) history s"

text \<open>A render in sequential display mode without labels (the effect draws no random
  number there).\<close>

definition seq_props :: "TreeMode \<Rightarrow> string list \<Rightarrow> real \<times> polaroids_props" where
  "seq_props m photos =
     (0, \<lparr>mode = m, uploadedPhotos = photos, displayMode = Sequential, photoLabels = None\<rparr>)"

subsection \<open>Polaroids: the photo data and the rendered items\<close>

text \<open>
  \<^verbatim>\<open>label: photoLabels && photoLabels[i] ? photoLabels[i] : "Happy Memories"\<close>:
  \<open>photoLabels\<close> may be undefined, \<open>photoLabels[i]\<close> is undefined beyond the array's
  end, and an empty string is falsy as undefined is.
\<close>

definition label_at :: "string list option \<Rightarrow> nat \<Rightarrow> string" where
  "label_at labels i =
     (case labels of
        None \<Rightarrow> ''Happy Memories''
      | Some ls \<Rightarrow> if i < length ls \<and> ls ! i \<noteq> [] then ls ! i else ''Happy Memories'')"

text \<open>The body of the loop for index \<open>i\<close>, which calls \<open>Math.random()\<close> three times
  (for \<open>distance\<close>, \<open>heightSpread\<close> and \<open>speed\<close>): the calls number \<open>3 * i\<close> to
  \<open>3 * i + 2\<close>. The loop runs for \<open>i < uploadedPhotos.length\<close>, so
  \<open>uploadedPhotos[i]\<close> is in range.\<close>

definition photo_item ::
  "(nat \<Rightarrow> real) \<Rightarrow> string list \<Rightarrow> nat option \<Rightarrow> string list option \<Rightarrow> nat \<Rightarrow> PhotoData" where
  "photo_item random photos selected labels i =
     (let height = 9;
          maxRadius = 5.0;
          count = length photos;
          yNorm = 0.2 + (real i / real count) * 0.6;
          y = yNorm * height;
          r = maxRadius * (1 - yNorm) + 0.8;
          theta = real i * 2.39996;
          target = (r * cos theta, y, r * sin theta);
          relativeY = 5;
          relativeZ = 20;
          angle = (real i / real count) * pi * 2;
          distance = 3 + random (3 * i) * 4;
          heightSpread = (random (3 * i + 1) - 0.5) * 8;
          chaos = (distance * cos angle * 1.2, relativeY + heightSpread,
                   relativeZ - 4 + distance * sin angle * 0.5)
      in \<lparr>photo_id = i, url = photos ! i, chaosPos = chaos, targetPos = target,
          pinchPos = (0, 8, 8), speed = 0.8 + random (3 * i + 2) * 1.5,
          isSelected = (Some i = selected), label = label_at labels i\<rparr>)"

text \<open>The \<open>useMemo\<close> callback: the empty list when nothing is uploaded, otherwise the loop
  that pushes one item for each index.\<close>

definition photoData ::
  "(nat \<Rightarrow> real) \<Rightarrow> string list \<Rightarrow> nat option \<Rightarrow> string list option \<Rightarrow> PhotoData list" where
  "photoData random photos selected labels =
     (if length photos = 0 then []
      else fold (\<lambda>i data. data @ [photo_item random photos selected labels i])
             [0..<length photos] [])"

text \<open>
  The list is memoised: \<^verbatim>\<open>useMemo(() => { ... }, [uploadedPhotos, selectedPhotoIndex])\<close>.
  React keeps the value of the last run together with its dependencies and runs the callback
  again only when a dependency differs under \<open>Object.is\<close>: the array by identity, the
  index by value. \<open>photoLabels\<close>, which the callback reads, is not among the
  dependencies. The identity of the \<open>uploadedPhotos\<close> array is a number given with the
  props of a render: two renders pass the same array object exactly when the numbers are
  equal.
\<close>

record photo_memo =
  memo_array :: nat
  memo_selected :: "nat option"
  memo_data :: "PhotoData list"

definition useMemo_photoData ::
  "(nat \<Rightarrow> real) \<Rightarrow> nat \<Rightarrow> polaroids_props \<Rightarrow> polaroids_state \<Rightarrow> photo_memo option \<Rightarrow> photo_memo" where
  "useMemo_photoData random array p s cache =
     (let fresh = \<lparr>memo_array = array, memo_selected = selectedPhotoIndex s,
                    memo_data = photoData random (uploadedPhotos p) (selectedPhotoIndex s)
                                  (photoLabels p)\<rparr>
      in case cache of
           None \<Rightarrow> fresh
         | Some c \<Rightarrow>
             if memo_array c = array \<and> memo_selected c = selectedPhotoIndex s then c else fresh)"

text \<open>\<^verbatim>\<open>photoData.map((data, i) =>
  <PolaroidItem key={i} index={i} data={data} mode={mode} photoLabel={data.label} />)\<close>:
  a render returns the memo it leaves and the items it renders from the memoised list.\<close>

record PolaroidItem_props =
  item_key :: nat
  item_index :: nat
  item_data :: PhotoData
  item_mode :: TreeMode
  item_photoLabel :: string

definition Polaroids_render ::
  "(nat \<Rightarrow> real) \<Rightarrow> nat \<Rightarrow> polaroids_props \<Rightarrow> polaroids_state \<Rightarrow> photo_memo option
    \<Rightarrow> photo_memo \<times> PolaroidItem_props list" where
  "Polaroids_render random array p s cache =
     (let m = useMemo_photoData random array p s cache
      in (m, map (\<lambda>(i, data). \<lparr>item_key = i, item_index = i, item_data = data,
                    item_mode = mode p, item_photoLabel = label data\<rparr>)
               (enumerate 0 (memo_data m))))"

section \<open>MusicPlayer (src/components/MusicPlayer.tsx)\<close>

text \<open>
  \<^verbatim>\<open>
  const toggleMusic = () => {
    if (!audioRef.current) return;
    if (isPlaying) {
      audioRef.current.pause();
    } else {
      audioRef.current.play().catch(error => {
        console.error("Failed to play music:", error);
      });
    }
    setIsPlaying(!isPlaying);
  };
  \<close>
  The promise of \<open>play()\<close> is resolved or rejected by the browser: the first argument.
\<close>

record audio =
  audio_src :: string
  audio_loop :: bool
  audio_volume :: real
  audio_paused :: bool

record music_state =
  audioRef :: "audio option"
  isPlaying :: bool

datatype play_outcome = PlayResolved | PlayRejected string

definition toggleMusic ::
  "play_outcome \<Rightarrow> music_state \<times> log_entry list \<Rightarrow> music_state \<times> log_entry list" where
  "toggleMusic outcome sl =
     (case audioRef (fst sl) of
        None \<Rightarrow> sl
      | Some a \<Rightarrow>
          if isPlaying (fst sl) then
            ((fst sl)\<lparr>audioRef := Some (a\<lparr>audio_paused := True\<rparr>), isPlaying := \<not> isPlaying (fst sl)\<rparr>,
             snd sl)
          else
            (case outcome of
               PlayResolved \<Rightarrow>
                 ((fst sl)\<lparr>audioRef := Some (a\<lparr>audio_paused := False\<rparr>),
                    isPlaying := \<not> isPlaying (fst sl)\<rparr>, snd sl)
             | PlayRejected err \<Rightarrow>
                 ((fst sl)\<lparr>isPlaying := \<not> isPlaying (fst sl)\<rparr>,
                  snd sl @ [ConsoleError ''Failed to play music:'' err])))"

section \<open>Invariants used in the proofs\<close>



text \<open>The sequential counter and the selected index, if any, are below \<open>n\<close>.\<close>

definition selection_in_range :: "nat \<Rightarrow> polaroids_state \<Rightarrow> bool" where
  "selection_in_range n s =
     (sequentialIndex s < n \<and> (case selectedPhotoIndex s of None \<Rightarrow> True | Some k \<Rightarrow> k < n))"

section \<open>TreeTrunk: the easing curve\<close>

lemma cubicInOut_low:
  fixes t :: "'a::linordered_field"
  assumes "0 \<le> t" "t < 1 / 2"
  shows "0 \<le> cubicInOut t" "cubicInOut t \<le> 1 / 2"
proof -
  have c: "cubicInOut t = 4 * t ^ 3"
    using assms by (simp add: cubicInOut_def power3_eq_cube algebra_simps)
  have "t ^ 3 \<le> (1 / 2) ^ 3"
    using assms by (intro power_mono) auto
  then have "4 * t ^ 3 \<le> 4 * (1 / 2) ^ 3"
    by simp
  then show "cubicInOut t \<le> 1 / 2"
    by (simp add: c power3_eq_cube)
  show "0 \<le> cubicInOut t"
    using assms by (simp add: c)
qed

lemma cubicInOut_high:
  fixes t :: "'a::linordered_field"
  assumes "1 / 2 \<le> t" "t \<le> 1"
  shows "1 / 2 \<le> cubicInOut t" "cubicInOut t \<le> 1"
proof -
  have c: "cubicInOut t = 1 - (2 - 2 * t) ^ 3 / 2"
    using assms by (simp add: cubicInOut_def)
  have "0 \<le> 2 - 2 * t" "2 - 2 * t \<le> 1"
    using assms by (auto simp: field_simps)
  then have "(2 - 2 * t) ^ 3 \<le> 1" "0 \<le> (2 - 2 * t) ^ 3"
    by (auto intro: power_le_one)
  then show "1 / 2 \<le> cubicInOut t" "cubicInOut t \<le> 1"
    by (auto simp: c field_simps)
qed

lemma cubicInOut_mono:
  fixes s t :: "'a::linordered_field"
  assumes "0 \<le> s" "s \<le> t" "t \<le> 1"
  shows "cubicInOut s \<le> cubicInOut t"
proof (cases "t < 1 / 2")
  case True
  then have s: "s < 1 / 2" using assms by simp
  have "s ^ 3 \<le> t ^ 3"
    using assms by (intro power_mono) auto
  then have "4 * s ^ 3 \<le> 4 * t ^ 3" by simp
  then show ?thesis
    using True s by (simp add: cubicInOut_def power3_eq_cube algebra_simps)
next
  case tHigh: False
  show ?thesis
  proof (cases "s < 1 / 2")
    case True
    have "cubicInOut s \<le> 1 / 2"
      using cubicInOut_low [of s] assms True by simp
    also have "1 / 2 \<le> cubicInOut t"
      using cubicInOut_high [of t] assms tHigh by simp
    finally show ?thesis .
  next
    case False
    have "0 \<le> 2 - 2 * t" "2 - 2 * t \<le> 2 - 2 * s"
      using assms by (auto simp: field_simps)
    then have "(2 - 2 * t) ^ 3 \<le> (2 - 2 * s) ^ 3"
      by (intro power_mono) auto
    then show ?thesis
      using False tHigh by (simp add: cubicInOut_def field_simps)
  qed
qed

text \<open>
  Claim C5. The cubic ease-in-out of the trunk's vertex shader is a valid easing curve over
  exact arithmetic (any ordered field, so the rationals): it maps 0 to 0, 1 to 1 and 1/2 to
  1/2, the two branches agree at 1/2 (the first branch's formula gives 1/2 there as well), and
  it is monotonically non-decreasing on the interval from 0 to 1.
\<close>

theorem cubicInOut_valid_easing:
  fixes s t :: "'a::linordered_field"
  shows "cubicInOut (0::'a) = 0 \<and> cubicInOut (1::'a) = 1 \<and> cubicInOut (1 / 2 :: 'a) = 1 / 2
    \<and> 4 * (1 / 2 :: 'a) * (1 / 2) * (1 / 2) = 1 - (- 2 * (1 / 2) + 2) ^ 3 / 2
    \<and> (0 \<le> s \<and> s \<le> t \<and> t \<le> 1 \<longrightarrow> cubicInOut s \<le> cubicInOut t)"
proof -
  have "cubicInOut (0::'a) = 0" "cubicInOut (1::'a) = 1" "cubicInOut (1 / 2 :: 'a) = 1 / 2"
    by (simp_all add: cubicInOut_def)
  moreover have "4 * (1 / 2 :: 'a) * (1 / 2) * (1 / 2) = 1 - (- 2 * (1 / 2) + 2) ^ 3 / 2"
    by simp
  moreover have "0 \<le> s \<and> s \<le> t \<and> t \<le> 1 \<longrightarrow> cubicInOut s \<le> cubicInOut t"
    using cubicInOut_mono by blast
  ultimately show ?thesis by blast
qed

text \<open>At 1/4 and 3/4, over the rationals: the values are 1/16 and 15/16.\<close>

theorem cubicInOut_valid_easing_witness:
  "(0::rat) \<le> 1 / 4 \<and> (1 / 4 :: rat) \<le> 3 / 4 \<and> (3 / 4 :: rat) \<le> 1
    \<and> cubicInOut (1 / 4 :: rat) \<le> cubicInOut (3 / 4)
    \<and> cubicInOut (1 / 4 :: rat) = 1 / 16 \<and> cubicInOut (3 / 4 :: rat) = 15 / 16"
  using cubicInOut_valid_easing [of "1 / 4 :: rat" "3 / 4"]
  by (simp add: cubicInOut_def power3_eq_cube)

section \<open>TreeTrunk: the morph progress\<close>

lemma lerp_unit:
  assumes "0 \<le> x" "x \<le> 1" "0 \<le> y" "y \<le> 1" "0 \<le> t" "t \<le> 1"
  shows "0 \<le> lerp x y t" "lerp x y t \<le> 1"
proof -
  have "0 \<le> (1 - t) * x" "0 \<le> t * y"
    using assms by simp_all
  then show "0 \<le> lerp x y t"
    by (simp add: lerp_def)
  have "(1 - t) * x \<le> (1 - t) * 1" "t * y \<le> t * 1"
    using assms mult_left_mono [of x 1 "1 - t"] mult_left_mono [of y 1 t] by simp_all
  then show "lerp x y t \<le> 1"
    by (simp add: lerp_def)
qed

lemma useFrame_trunk_unit:
  assumes "0 \<le> progressRef s" "progressRef s \<le> 1" "0 \<le> d" "d * 3.5 \<le> 1"
  shows "0 \<le> progressRef (useFrame_trunk m md e d s)
    \<and> progressRef (useFrame_trunk m md e d s) \<le> 1"
proof -
  have "0 \<le> d * 3.5" using assms by simp
  then show ?thesis
    using assms lerp_unit [of "progressRef s" "if md = FORMED then 1 else 0" "d * 3.5"]
    by (simp add: useFrame_trunk_def Let_def)
qed

lemma trunk_frames_unit:
  "list_all (\<lambda>k. 0 \<le> tick_delta k \<and> tick_delta k * 3.5 \<le> 1) ticks
    \<Longrightarrow> 0 \<le> progressRef s \<Longrightarrow> progressRef s \<le> 1
    \<Longrightarrow> 0 \<le> progressRef (trunk_frames ticks s) \<and> progressRef (trunk_frames ticks s) \<le> 1"
proof (induction ticks arbitrary: s)
  case Nil
  then show ?case by (simp add: trunk_frames_def)
next
  case (Cons k ticks)
  have "0 \<le> progressRef (useFrame_trunk True (tick_mode k) (tick_elapsedTime k) (tick_delta k) s)
    \<and> progressRef (useFrame_trunk True (tick_mode k) (tick_elapsedTime k) (tick_delta k) s) \<le> 1"
    using Cons.prems by (intro useFrame_trunk_unit) simp_all
  then show ?case
    using Cons.IH [of "useFrame_trunk True (tick_mode k) (tick_elapsedTime k) (tick_delta k) s"]
      Cons.prems(1)
    by (simp add: trunk_frames_def)
qed

lemma localProgress_unit: "0 \<le> localProgress p a \<and> localProgress p a \<le> 1"
  by (simp add: localProgress_def clamp_def)

lemma easedProgress_unit: "0 \<le> easedProgress p a \<and> easedProgress p a \<le> 1"
proof (cases "localProgress p a < 1 / 2")
  case True
  then show ?thesis
    using cubicInOut_low [of "localProgress p a"] localProgress_unit [of p a]
    by (simp add: easedProgress_def)
next
  case False
  then show ?thesis
    using cubicInOut_high [of "localProgress p a"] localProgress_unit [of p a]
    by (simp add: easedProgress_def)
qed

text \<open>
  Claim C4, amended. On every frame with the mesh mounted the progress value is lerped, with
  factor 3.5 times the frame delta, toward target 1 exactly when the mode is FORMED and toward
  target 0 otherwise, and the uniform takes the new value. Starting from 0, the progress value
  remains within [0, 1] after every run of frames whose deltas are non-negative and at most
  2/7 (so that the factor is at most 1). For any progress value and random seed, the
  shader's clamped local progress is within [0, 1].
\<close>

theorem trunk_progress_driver:
  assumes "list_all (\<lambda>k. 0 \<le> tick_delta k \<and> tick_delta k * 3.5 \<le> 1) ticks"
  shows "progressRef (useFrame_trunk True md e d s)
        = lerp (progressRef s) (if md = FORMED then 1 else 0) (d * 3.5)
    \<and> uProgress (useFrame_trunk True md e d s) = progressRef (useFrame_trunk True md e d s)
    \<and> 0 \<le> progressRef (trunk_frames ticks trunk_initial)
    \<and> progressRef (trunk_frames ticks trunk_initial) \<le> 1
    \<and> 0 \<le> localProgress p a \<and> localProgress p a \<le> 1"
  using trunk_frames_unit [OF assms, of trunk_initial] localProgress_unit [of p a]
  by (simp add: useFrame_trunk_def Let_def trunk_initial_def)

text \<open>Two frames, FORMED with delta 0.2 and then CHAOS with delta 0.1: the progress goes
  from 0 to 0.7 and then to 0.455.\<close>

theorem trunk_progress_driver_witness:
  "list_all (\<lambda>k. 0 \<le> tick_delta k \<and> tick_delta k * 3.5 \<le> 1)
      [\<lparr>tick_mode = FORMED, tick_elapsedTime = 0.2, tick_delta = 0.2\<rparr>,
       \<lparr>tick_mode = CHAOS, tick_elapsedTime = 0.3, tick_delta = 0.1\<rparr>]
    \<and> progressRef (trunk_frames
        [\<lparr>tick_mode = FORMED, tick_elapsedTime = 0.2, tick_delta = 0.2\<rparr>,
         \<lparr>tick_mode = CHAOS, tick_elapsedTime = 0.3, tick_delta = 0.1\<rparr>] trunk_initial) = 0.455
    \<and> progressRef (trunk_frames
        [\<lparr>tick_mode = FORMED, tick_elapsedTime = 0.2, tick_delta = 0.2\<rparr>,
         \<lparr>tick_mode = CHAOS, tick_elapsedTime = 0.3, tick_delta = 0.1\<rparr>] trunk_initial) \<le> 1"
  using trunk_progress_driver [of
      "[\<lparr>tick_mode = FORMED, tick_elapsedTime = 0.2, tick_delta = 0.2\<rparr>,
        \<lparr>tick_mode = CHAOS, tick_elapsedTime = 0.3, tick_delta = 0.1\<rparr>]"]
  by (simp add: trunk_frames_def useFrame_trunk_def trunk_initial_def lerp_def Let_def)

text \<open>A single FORMED frame with the non-negative delta of one second (a frame after a
  pause) takes the progress from 0 to 3.5, outside [0, 1].\<close>

theorem trunk_progress_counterexample:
  "(0::real) \<le> 1
    \<and> progressRef (trunk_frames
        [\<lparr>tick_mode = FORMED, tick_elapsedTime = 1, tick_delta = 1\<rparr>] trunk_initial) = 3.5
    \<and> \<not> progressRef (trunk_frames
        [\<lparr>tick_mode = FORMED, tick_elapsedTime = 1, tick_delta = 1\<rparr>] trunk_initial) \<le> 1"
  by (simp add: trunk_frames_def useFrame_trunk_def trunk_initial_def lerp_def Let_def)

section \<open>Single-precision rounding\<close>
















section \<open>TreeTrunk: the per-particle attributes\<close>
















section \<open>Experience: the camera follows a moving hand only\<close>

text \<open>
  Claim C7. The hand-tracking camera update has no effect unless a hand is actively moving:
  in every frame in which \<open>handPosition.detected\<close> is false, or in which the Euclidean
  distance between the current and the previous hand position is at most the movement
  threshold 0.005, the frame callback leaves everything it could write unchanged: the camera
  position, the controls' target and the stored previous hand position (whatever
  \<open>controls.update()\<close> would do, and also while no controls are mounted).
\<close>

theorem camera_unchanged_without_movement:
  assumes "\<not> detected h
    \<or> hypot (hand_x h - fst (prevHandPos s)) (hand_y h - snd (prevHandPos s)) \<le> 0.005"
  shows "useFrame_experience update h delta s = s
    \<and> map_option object_position (controlsRef (useFrame_experience update h delta s))
        = map_option object_position (controlsRef s)
    \<and> map_option controls_target (controlsRef (useFrame_experience update h delta s))
        = map_option controls_target (controlsRef s)
    \<and> prevHandPos (useFrame_experience update h delta s) = prevHandPos s"
proof -
  have "useFrame_experience update h delta s = s"
    using assms
    by (auto simp: useFrame_experience_def MOVEMENT_THRESHOLD_def Let_def split: option.splits)
  then show ?thesis by simp
qed

text \<open>A detected hand at (0.503, 0.504), at distance exactly 0.005 from the previous
  position (0.5, 0.5), and an undetected hand far from it: the state stays as it is.\<close>

theorem camera_unchanged_without_movement_witness:
  "hypot (hand_x \<lparr>hand_x = 0.503, hand_y = 0.504, detected = True\<rparr> - fst (0.5 :: real, 0.5 :: real))
         (hand_y \<lparr>hand_x = 0.503, hand_y = 0.504, detected = True\<rparr> - snd (0.5 :: real, 0.5 :: real))
     = 0.005
   \<and> useFrame_experience id \<lparr>hand_x = 0.503, hand_y = 0.504, detected = True\<rparr> 0.016
        \<lparr>controlsRef = Some \<lparr>object_position = (0, 4, 20), controls_target = (0, 0, 0),
             azimuthalAngle = 0, polarAngle = 1, controls_distance = 20\<rparr>,
          prevHandPos = (0.5, 0.5)\<rparr>
     = \<lparr>controlsRef = Some \<lparr>object_position = (0, 4, 20), controls_target = (0, 0, 0),
             azimuthalAngle = 0, polarAngle = 1, controls_distance = 20\<rparr>,
          prevHandPos = (0.5, 0.5)\<rparr>
   \<and> useFrame_experience id \<lparr>hand_x = 0.9, hand_y = 0.1, detected = False\<rparr> 0.016
        \<lparr>controlsRef = Some \<lparr>object_position = (0, 4, 20), controls_target = (0, 0, 0),
             azimuthalAngle = 0, polarAngle = 1, controls_distance = 20\<rparr>,
          prevHandPos = (0.5, 0.5)\<rparr>
     = \<lparr>controlsRef = Some \<lparr>object_position = (0, 4, 20), controls_target = (0, 0, 0),
             azimuthalAngle = 0, polarAngle = 1, controls_distance = 20\<rparr>,
          prevHandPos = (0.5, 0.5)\<rparr>"
proof -
  have "(3 / 1000 :: real)\<^sup>2 + (4 / 1000)\<^sup>2 = (5 / 1000)\<^sup>2"
    by (simp add: power2_eq_square)
  then have "sqrt ((3 / 1000 :: real)\<^sup>2 + (4 / 1000)\<^sup>2) = 5 / 1000"
    using real_sqrt_abs [of "5 / 1000"] by simp
  then have h: "hypot (0.503 - 0.5) (0.504 - 0.5) = 0.005"
    by (simp add: hypot_def)
  show ?thesis
    using h
      camera_unchanged_without_movement [of "\<lparr>hand_x = 0.503, hand_y = 0.504, detected = True\<rparr>"
        "\<lparr>controlsRef = Some \<lparr>object_position = (0, 4, 20), controls_target = (0, 0, 0),
             azimuthalAngle = 0, polarAngle = 1, controls_distance = 20\<rparr>, prevHandPos = (0.5, 0.5)\<rparr>"
        id "0.016"]
      camera_unchanged_without_movement [of "\<lparr>hand_x = 0.9, hand_y = 0.1, detected = False\<rparr>"
        "\<lparr>controlsRef = Some \<lparr>object_position = (0, 4, 20), controls_target = (0, 0, 0),
             azimuthalAngle = 0, polarAngle = 1, controls_distance = 20\<rparr>, prevHandPos = (0.5, 0.5)\<rparr>"
        id "0.016"]
    by simp
qed

text \<open>The callback is not idle altogether: a detected hand that moved by 0.5 is stored as
  the new previous position.\<close>

lemma camera_moves_with_movement:
  "prevHandPos (useFrame_experience id \<lparr>hand_x = 1, hand_y = 0.5, detected = True\<rparr> 0.016
        \<lparr>controlsRef = Some \<lparr>object_position = (0, 4, 20), controls_target = (0, 0, 0),
             azimuthalAngle = 0, polarAngle = 1, controls_distance = 20\<rparr>,
          prevHandPos = (0.5, 0.5)\<rparr>) = (1, 0.5)"
  by (simp add: useFrame_experience_def hypot_def MOVEMENT_THRESHOLD_def Let_def)

section \<open>UIOverlay: the calls of the upload callback\<close>

lemma collect_readers_eq:
  "collect_readers fs readers = readers @ map reader_promise (filter is_image fs)"
  by (induction fs arbitrary: readers) (simp_all add: is_image_def)

lemma Promise_all_delivers:
  "list_all read_delivers fs \<Longrightarrow> Promise_all (map reader_promise fs) = Resolved (map data_url fs)"
  by (induction fs)
    (auto simp: read_delivers_def reader_promise_def data_url_def
      split: reader_event.splits option.splits)

lemma Promise_all_pending:
  "\<not> list_all read_delivers fs \<Longrightarrow> Promise_all (map reader_promise fs) = Pending"
  by (induction fs)
    (auto simp: read_delivers_def reader_promise_def
      split: reader_event.splits option.splits promise.splits)

text \<open>
  Claim C8, amended. The file-upload handler calls \<open>onPhotosUpload\<close> at most once for a
  change event: never when the event carries no files (a null or empty list); otherwise
  exactly once, with the list of the data URLs read, in order, from exactly the selected
  files whose MIME type starts with \<open>image/\<close> (so a selection of non-image files only still
  triggers the callback, with an empty list), provided the read of each of these image files
  delivers a non-empty result; and when the read of one of them delivers none, the callback
  is not called at all.
\<close>

theorem handleFileChange_calls:
  "length (handleFileChange files) \<le> 1
    \<and> handleFileChange None = []
    \<and> handleFileChange (Some []) = []
    \<and> (fs \<noteq> [] \<and> list_all read_delivers (filter is_image fs)
         \<longrightarrow> handleFileChange (Some fs) = [map data_url (filter is_image fs)])
    \<and> (fs \<noteq> [] \<and> \<not> list_all read_delivers (filter is_image fs)
         \<longrightarrow> handleFileChange (Some fs) = [])"
proof -
  have "length (handleFileChange files) \<le> 1"
    by (simp add: handleFileChange_def split: option.splits promise.splits)
  moreover have "handleFileChange None = []" "handleFileChange (Some []) = []"
    by (simp_all add: handleFileChange_def)
  moreover have "fs \<noteq> [] \<and> list_all read_delivers (filter is_image fs)
      \<longrightarrow> handleFileChange (Some fs) = [map data_url (filter is_image fs)]"
    by (simp add: handleFileChange_def collect_readers_eq Promise_all_delivers)
  moreover have "fs \<noteq> [] \<and> \<not> list_all read_delivers (filter is_image fs)
      \<longrightarrow> handleFileChange (Some fs) = []"
    by (simp add: handleFileChange_def collect_readers_eq Promise_all_pending)
  ultimately show ?thesis by blast
qed

text \<open>A PNG, a text file and a JPEG, all read: one call, with the two images' data URLs.
  A text file alone: one call, with the empty list.\<close>

theorem handleFileChange_calls_witness:
  "[\<lparr>file_type = ''image/png'', file_read = Load (Some ''data:image/png;base64,AA'')\<rparr>,
    \<lparr>file_type = ''text/plain'', file_read = Load (Some ''data:text/plain;base64,BB'')\<rparr>,
    \<lparr>file_type = ''image/jpeg'', file_read = Load (Some ''data:image/jpeg;base64,CC'')\<rparr>] \<noteq> []
   \<and> list_all read_delivers (filter is_image
        [\<lparr>file_type = ''image/png'', file_read = Load (Some ''data:image/png;base64,AA'')\<rparr>,
         \<lparr>file_type = ''text/plain'', file_read = Load (Some ''data:text/plain;base64,BB'')\<rparr>,
         \<lparr>file_type = ''image/jpeg'', file_read = Load (Some ''data:image/jpeg;base64,CC'')\<rparr>])
   \<and> handleFileChange (Some
        [\<lparr>file_type = ''image/png'', file_read = Load (Some ''data:image/png;base64,AA'')\<rparr>,
         \<lparr>file_type = ''text/plain'', file_read = Load (Some ''data:text/plain;base64,BB'')\<rparr>,
         \<lparr>file_type = ''image/jpeg'', file_read = Load (Some ''data:image/jpeg;base64,CC'')\<rparr>])
       = [[''data:image/png;base64,AA'', ''data:image/jpeg;base64,CC'']]
   \<and> handleFileChange (Some [\<lparr>file_type = ''text/plain'', file_read = NoLoad\<rparr>]) = [[]]"
  using handleFileChange_calls [of None
        "[\<lparr>file_type = ''image/png'', file_read = Load (Some ''data:image/png;base64,AA'')\<rparr>,
         \<lparr>file_type = ''text/plain'', file_read = Load (Some ''data:text/plain;base64,BB'')\<rparr>,
         \<lparr>file_type = ''image/jpeg'', file_read = Load (Some ''data:image/jpeg;base64,CC'')\<rparr>]"]
    handleFileChange_calls [of None "[\<lparr>file_type = ''text/plain'', file_read = NoLoad\<rparr>]"]
  by (simp add: is_image_def startsWith_def read_delivers_def data_url_def)

text \<open>An event with one image file whose read never fires \<open>onload\<close>: the event carries a
  file, and the callback is called zero times, not once.\<close>

theorem handleFileChange_counterexample:
  "[\<lparr>file_type = ''image/png'', file_read = NoLoad\<rparr>] \<noteq> []
   \<and> startsWith (file_type \<lparr>file_type = ''image/png'', file_read = NoLoad\<rparr>) ''image/''
   \<and> handleFileChange (Some [\<lparr>file_type = ''image/png'', file_read = NoLoad\<rparr>]) = []
   \<and> length (handleFileChange (Some [\<lparr>file_type = ''image/png'', file_read = NoLoad\<rparr>])) \<noteq> 1"
  by (simp add: handleFileChange_def startsWith_def reader_promise_def)

section \<open>Polaroids: one item for each uploaded photo\<close>

lemma photoData_fold:
  "fold (\<lambda>i data. data @ [f i]) js acc = acc @ map f js"
  by (induction js arbitrary: acc) simp_all

lemma photoData_map:
  "photoData random photos selected labels
    = map (photo_item random photos selected labels) [0..<length photos]"
  by (simp add: photoData_def photoData_fold)

lemma photoData_nth:
  "i < length photos \<Longrightarrow>
    photoData random photos selected labels ! i = photo_item random photos selected labels i"
  by (simp add: photoData_map)

text \<open>A render that runs the callback (the first one, or one whose dependencies changed)
  renders one item for each uploaded photo, with the photo's url and with the label of that
  render's \<open>photoLabels\<close>, where an entry that is missing or the empty string gives
  'Happy Memories'; an empty upload list yields no item.\<close>

lemma photoData_generated:
  assumes "i < length photos"
  shows "length (photoData random photos selected labels) = length photos
    \<and> length (snd (Polaroids_render random array
        \<lparr>mode = m, uploadedPhotos = photos, displayMode = d, photoLabels = labels\<rparr>
        \<lparr>selectedPhotoIndex = selected, sequentialIndex = k\<rparr> None)) = length photos
    \<and> url (photoData random photos selected labels ! i) = photos ! i
    \<and> label (photoData random photos selected labels ! i)
        = (case labels of
             None \<Rightarrow> ''Happy Memories''
           | Some ls \<Rightarrow> if i < length ls \<and> ls ! i \<noteq> [] then ls ! i else ''Happy Memories'')
    \<and> photoData random [] selected labels = []"
  using assms
  by (simp add: photoData_map Polaroids_render_def useMemo_photoData_def photo_item_def
      label_at_def Let_def)

lemma label_at_empty_string:
  "label (photoData (\<lambda>_. 0) [''a.jpg''] None (Some [[]]) ! 0) = ''Happy Memories''"
  by (simp add: photoData_map photo_item_def label_at_def Let_def)

text \<open>
  Claim C9. The Polaroids component renders exactly one polaroid item for each uploaded
  photo: the photo data list has length \<open>uploadedPhotos.length\<close>, the item at position
  \<open>i\<close> uses url \<open>uploadedPhotos[i]\<close> and label \<open>photoLabels[i]\<close> when present (else
  'Happy Memories'), and an empty upload list yields zero items. The code does not keep the
  label: the memoised callback reads \<open>photoLabels\<close>, which is missing from its
  dependencies. A first render with one photo and the label 'Mum' shows 'Mum'; a second
  render with the same array of photos, the same selection and the label changed to 'Dad'
  reuses the memoised list and still shows 'Mum'.
\<close>

theorem stale_label_after_label_edit:
  "map item_photoLabel (snd (Polaroids_render (\<lambda>_. 0) 1
      \<lparr>mode = CHAOS, uploadedPhotos = [''a.jpg''], displayMode = Random,
         photoLabels = Some [''Mum'']\<rparr> polaroids_initial None)) = [''Mum'']
   \<and> map item_photoLabel (snd (Polaroids_render (\<lambda>_. 0) 1
      \<lparr>mode = CHAOS, uploadedPhotos = [''a.jpg''], displayMode = Random,
         photoLabels = Some [''Dad'']\<rparr> polaroids_initial
      (Some (fst (Polaroids_render (\<lambda>_. 0) 1
         \<lparr>mode = CHAOS, uploadedPhotos = [''a.jpg''], displayMode = Random,
            photoLabels = Some [''Mum'']\<rparr> polaroids_initial None))))) = [''Mum'']
   \<and> [''Dad''] ! 0 \<noteq> ''Mum''"
  by (simp add: Polaroids_render_def useMemo_photoData_def polaroids_initial_def photoData_map
      photo_item_def label_at_def Let_def)

section \<open>Polaroids: the pinch selection\<close>

text \<open>What the selection does keep. A second run of the effect on the same props changes
  nothing; leaving PINCH clears the selection; in PINCH the target of a photo is the pinch
  position if it is the selected one and its chaos position if not; a random index is in
  range; and while the number of photos stays the same, the counter and the selected index
  stay in range.\<close>

lemma useEffect_select_settled:
  "useEffect_select r' p (useEffect_select r p s) = useEffect_select r p s"
  by (simp add: useEffect_select_def)

lemma useEffect_select_cleared:
  "mode p \<noteq> PINCH \<Longrightarrow> selectedPhotoIndex (useEffect_select r p s) = None"
  by (simp add: useEffect_select_def)

lemma item_targetPos_pinch:
  "item_targetPos PINCH data = (if isSelected data then pinchPos data else chaosPos data)"
  by (simp add: item_targetPos_def)

lemma random_index_in_range:
  assumes "0 \<le> u" "u < 1" "0 < n"
  shows "nat \<lfloor>u * real n\<rfloor> < n"
proof -
  have "u * real n < real n"
    using assms by simp
  then have "\<lfloor>u * real n\<rfloor> < int n"
    by (simp add: floor_less_iff)
  moreover have "0 \<le> \<lfloor>u * real n\<rfloor>"
    using assms by simp
  ultimately show ?thesis by linarith
qed

lemma useEffect_select_in_range:
  assumes "selection_in_range n s" "length (uploadedPhotos p) = n" "0 \<le> r" "r < 1"
  shows "selection_in_range n (useEffect_select r p s)"
  using assms random_index_in_range [of r n]
  by (auto simp: selection_in_range_def useEffect_select_def split: option.splits)

lemma polaroids_renders_in_range:
  "selection_in_range n s
    \<Longrightarrow> list_all (\<lambda>(r, p). length (uploadedPhotos p) = n \<and> 0 \<le> r \<and> r < 1) history
    \<Longrightarrow> selection_in_range n (polaroids_renders history s)"
proof (induction history arbitrary: s)
  case Nil
  then show ?case by (simp add: polaroids_renders_def)
next
  case (Cons rp history)
  obtain r p where rp: "rp = (r, p)" by (cases rp)
  have "selection_in_range n (useEffect_select r p s)"
    using Cons.prems rp by (intro useEffect_select_in_range) simp_all
  then show ?case
    using Cons.IH [of "useEffect_select r p s"] Cons.prems(2) rp
    by (simp add: polaroids_renders_def)
qed

text \<open>
  Claim C2. In pinch mode a single photo is focused: whenever the mode prop becomes PINCH and
  at least one photo is uploaded, exactly one photo index in [0, number of photos) is
  selected, only that photo's movement target is the pinch position, every other photo's
  target is its chaos position, and the selection is cleared when the mode leaves PINCH.
  The code does not keep the first part once the photos are replaced by fewer in sequential
  display mode. With two photos, pinch is entered once (photo 0 is selected, the counter
  becomes 1) and left; the photos are cleared and a single photo is uploaded; pinch is
  entered again. The effect selects index 1, which is no index of the one-photo list: no
  photo is selected, and the target of the only photo is its chaos position.
\<close>

theorem pinch_focus_lost_after_replace:
  "polaroids_renders
      [seq_props PINCH [''a.jpg'', ''b.jpg''], seq_props CHAOS [''a.jpg'', ''b.jpg''],
       seq_props CHAOS [], seq_props CHAOS [''c.jpg''], seq_props PINCH [''c.jpg'']]
      polaroids_initial
     = \<lparr>selectedPhotoIndex = Some 1, sequentialIndex = 0\<rparr>
   \<and> map isSelected (photoData (\<lambda>_. 0) [''c.jpg''] (Some 1) None) = [False]
   \<and> map (item_targetPos PINCH) (photoData (\<lambda>_. 0) [''c.jpg''] (Some 1) None)
       = map chaosPos (photoData (\<lambda>_. 0) [''c.jpg''] (Some 1) None)"
  by (simp add: polaroids_renders_def seq_props_def useEffect_select_def polaroids_initial_def
      photoData_map photo_item_def item_targetPos_def Let_def)

text \<open>
  Claim C10. The pinch selection index is always in range: in random display mode the chosen
  index is in [0, number of photos), and in sequential display mode the chosen index is the
  stored counter, which advances by 1 modulo the number of photos after each selection, so
  that the counter always stays in [0, number of photos). The code reduces the counter
  modulo the number of photos only when it advances it, and not when the photos change. With
  two photos, after one pinch entry the counter is 1; it is still 1 after the photos are
  replaced by a single photo, where 1 is out of range, and the next pinch entry in
  sequential mode selects index 1.
\<close>

theorem sequential_counter_out_of_range:
  "sequentialIndex (polaroids_renders
      [seq_props PINCH [''a.jpg'', ''b.jpg''], seq_props CHAOS [''a.jpg'', ''b.jpg''],
       seq_props CHAOS [], seq_props CHAOS [''c.jpg'']] polaroids_initial) = 1
   \<and> \<not> (1::nat) < length [''c.jpg'']
   \<and> selectedPhotoIndex (useEffect_select 0
        \<lparr>mode = PINCH, uploadedPhotos = [''c.jpg''], displayMode = Sequential, photoLabels = None\<rparr>
        \<lparr>selectedPhotoIndex = None, sequentialIndex = 1\<rparr>) = Some 1"
  by (simp add: polaroids_renders_def seq_props_def useEffect_select_def polaroids_initial_def)

section \<open>Polaroids: what decides which photo is shown\<close>

text \<open>
  Claim C3, amended. The display of the photo subsystem is decided by the mode prop together
  with state the component holds itself: \<open>selectedPhotoIndex\<close>, which an effect sets from
  the mode, the number of photos, the display mode, the sequential counter and a random
  number. In a photo data list generated for the current photos and the current selection
  (the two dependencies of its memo; whatever the labels and the random numbers of the render
  that generated it), photo \<open>i\<close> moves toward the pinch position exactly when the mode is
  PINCH and \<open>selectedPhotoIndex\<close> is \<open>i\<close>, toward its formed position when the mode is
  FORMED, and toward its chaos position otherwise. After the effect ran, for any props, the
  selection is null unless the mode is PINCH with a photo uploaded; there it is the selection
  held before, or, if none was held, a new one: the random index in random display mode and
  the sequential counter otherwise.
\<close>

theorem display_by_mode_and_selection:
  "(i < length (uploadedPhotos p) \<longrightarrow>
      item_targetPos (mode p)
        (photoData random (uploadedPhotos p) (selectedPhotoIndex s) labels ! i)
      = (if mode p = PINCH \<and> selectedPhotoIndex s = Some i then (0, 8, 8)
         else if mode p = FORMED
           then targetPos (photo_item random (uploadedPhotos p) (selectedPhotoIndex s) labels i)
         else chaosPos (photo_item random (uploadedPhotos p) (selectedPhotoIndex s) labels i)))
    \<and> selectedPhotoIndex (useEffect_select r p s)
      = (if mode p = PINCH \<and> length (uploadedPhotos p) > 0 then
           (case selectedPhotoIndex s of
              Some k \<Rightarrow> Some k
            | None \<Rightarrow> Some (if displayMode p = Random
                             then nat \<lfloor>r * real (length (uploadedPhotos p))\<rfloor>
                             else sequentialIndex s))
         else None)"
proof -
  have "i < length (uploadedPhotos p) \<longrightarrow>
      item_targetPos (mode p)
        (photoData random (uploadedPhotos p) (selectedPhotoIndex s) labels ! i)
      = (if mode p = PINCH \<and> selectedPhotoIndex s = Some i then (0, 8, 8)
         else if mode p = FORMED
           then targetPos (photo_item random (uploadedPhotos p) (selectedPhotoIndex s) labels i)
         else chaosPos (photo_item random (uploadedPhotos p) (selectedPhotoIndex s) labels i))"
    by (auto simp: photoData_nth item_targetPos_def photo_item_def Let_def)
  moreover have "selectedPhotoIndex (useEffect_select r p s)
      = (if mode p = PINCH \<and> length (uploadedPhotos p) > 0 then
           (case selectedPhotoIndex s of
              Some k \<Rightarrow> Some k
            | None \<Rightarrow> Some (if displayMode p = Random
                             then nat \<lfloor>r * real (length (uploadedPhotos p))\<rfloor>
                             else sequentialIndex s))
         else None)"
    by (auto simp: useEffect_select_def split: option.splits)
  ultimately show ?thesis by blast
qed

text \<open>Three photos in PINCH: with photo 1 selected its target is the pinch position
  (0, 8, 8); with nothing selected, random display mode and the random number 1/2, the effect
  selects photo 1. In PINCH with no photo uploaded the effect leaves the selection null.\<close>

theorem display_by_mode_and_selection_witness:
  "(1::nat) < length (uploadedPhotos
       \<lparr>mode = PINCH, uploadedPhotos = [''a'', ''b'', ''c''], displayMode = Random, photoLabels = None\<rparr>)
   \<and> item_targetPos PINCH (photoData (\<lambda>_. 0) [''a'', ''b'', ''c''] (Some 1) None ! 1) = (0, 8, 8)
   \<and> selectedPhotoIndex (useEffect_select (1 / 2)
        \<lparr>mode = PINCH, uploadedPhotos = [''a'', ''b'', ''c''], displayMode = Random, photoLabels = None\<rparr>
        \<lparr>selectedPhotoIndex = None, sequentialIndex = 0\<rparr>) = Some 1
   \<and> selectedPhotoIndex (useEffect_select (1 / 2)
        \<lparr>mode = PINCH, uploadedPhotos = [], displayMode = Sequential, photoLabels = None\<rparr>
        \<lparr>selectedPhotoIndex = Some 2, sequentialIndex = 1\<rparr>) = None"
  using display_by_mode_and_selection [of 1
      "\<lparr>mode = PINCH, uploadedPhotos = [''a'', ''b'', ''c''], displayMode = Random, photoLabels = None\<rparr>"
      "\<lambda>_. 0" "\<lparr>selectedPhotoIndex = Some 1, sequentialIndex = 0\<rparr>" None]
    display_by_mode_and_selection [of 1
      "\<lparr>mode = PINCH, uploadedPhotos = [''a'', ''b'', ''c''], displayMode = Random, photoLabels = None\<rparr>"
      "\<lambda>_. 0" "\<lparr>selectedPhotoIndex = None, sequentialIndex = 0\<rparr>" None "1 / 2"]
    display_by_mode_and_selection [of 0
      "\<lparr>mode = PINCH, uploadedPhotos = [], displayMode = Sequential, photoLabels = None\<rparr>"
      "\<lambda>_. 0" "\<lparr>selectedPhotoIndex = Some 2, sequentialIndex = 1\<rparr>" None "1 / 2"]
  by simp

text \<open>Two histories of renders in sequential display mode end with the same props (PINCH,
  the same three photos). After the first, a single pinch entry, photo 0 is the selected one;
  after the second, which enters pinch, leaves it and enters it again, photo 1 is: the state
  held from the earlier modes decides which photo is shown.\<close>

theorem display_depends_on_state_counterexample:
  "snd (last [seq_props PINCH [''a'', ''b'', ''c'']])
     = snd (last [seq_props PINCH [''a'', ''b'', ''c''], seq_props CHAOS [''a'', ''b'', ''c''],
                  seq_props PINCH [''a'', ''b'', ''c'']])
   \<and> map isSelected (photoData (\<lambda>_. 0) [''a'', ''b'', ''c'']
        (selectedPhotoIndex (polaroids_renders [seq_props PINCH [''a'', ''b'', ''c'']]
           polaroids_initial)) None) = [True, False, False]
   \<and> map isSelected (photoData (\<lambda>_. 0) [''a'', ''b'', ''c'']
        (selectedPhotoIndex (polaroids_renders
           [seq_props PINCH [''a'', ''b'', ''c''], seq_props CHAOS [''a'', ''b'', ''c''],
            seq_props PINCH [''a'', ''b'', ''c'']] polaroids_initial)) None) = [False, True, False]"
  by (simp add: polaroids_renders_def seq_props_def useEffect_select_def polaroids_initial_def
      photoData_map photo_item_def Let_def upt_rec [of 0] upt_rec [of 1] upt_rec [of 2]
      upt_rec [of "Suc 0"] upt_rec [of "Suc (Suc 0)"])

section \<open>Error handling: the texture fallback and the music player\<close>

text \<open>
  Claim C1, amended. For every polaroid item, if loading its texture from its URL fails, the
  item degrades to a placeholder visual (the fallback material in colour #550000 and the
  label 'Image not found') and a warning naming the URL is logged. The texture-load failure
  is not the program's only error-handling branch: when the browser rejects \<open>play()\<close>, the
  music player's toggle catches the rejection and logs it with \<open>console.error\<close> (and flips
  its playing flag all the same).
\<close>

theorem texture_failure_placeholder:
  "photo_material (fst (useEffect_texture u (TextureFailed err) (s, console))) = MeshStandardMaterial ''#550000''
    \<and> label_text (fst (useEffect_texture u (TextureFailed err) (s, console))) photoLabel = ''Image not found''
    \<and> snd (useEffect_texture u (TextureFailed err) (s, console))
        = console @ [ConsoleWarn (''Failed to load image: '' @ u) err]
    \<and> toggleMusic (PlayRejected e) (\<lparr>audioRef = Some a, isPlaying = False\<rparr>, console)
        = (\<lparr>audioRef = Some a, isPlaying = True\<rparr>, console @ [ConsoleError ''Failed to play music:'' e])"
  by (simp add: useEffect_texture_def photo_material_def label_text_def toggleMusic_def
      split: option.splits)

text \<open>An operation other than the texture load with an error-handling branch: toggling the
  music on while the browser rejects playback writes an error to the console.\<close>

theorem only_error_class_counterexample:
  "snd (toggleMusic (PlayRejected ''NotAllowedError'')
      (\<lparr>audioRef = Some \<lparr>audio_src = ''music.mp3'', audio_loop = True, audio_volume = 0.5,
            audio_paused = True\<rparr>, isPlaying = False\<rparr>, []))
     = [ConsoleError ''Failed to play music:'' ''NotAllowedError'']
   \<and> snd (toggleMusic (PlayRejected ''NotAllowedError'')
      (\<lparr>audioRef = Some \<lparr>audio_src = ''music.mp3'', audio_loop = True, audio_volume = 0.5,
            audio_paused = True\<rparr>, isPlaying = False\<rparr>, [])) \<noteq> []"
  by (simp add: toggleMusic_def)

end
